theory Spec2Isabelle
  imports Complex_Main
begin

section \<open>Python values used by netcheck\<close>

text \<open>
  The program is Python. Its exceptions are values of \<open>py_error\<close>; a function that can
  raise returns \<open>py_error + 'a\<close> with \<open>Inl\<close> for the exception.
\<close>

datatype py_error = KeyError string | TypeError | ValueError

subsection \<open>Floats\<close>

text \<open>
  A Python float is an IEEE binary64 value. \<open>Finite s m e\<close> is \<open>(-1)^s * m * 2^e\<close>
  (\<open>s\<close> the sign bit, so \<open>Finite True 0 0\<close> is \<open>-0.0\<close>), \<open>Infinity s\<close> is \<open>inf\<close> or
  \<open>-inf\<close>. \<open>25.0\<close> is \<open>Finite False 25 0\<close>, \<open>100.5\<close> is \<open>Finite False 201 (-1)\<close>.
  Comparison with an integer and truth value are exact in Python, so they are
  computed on the rational value.
\<close>

datatype pyfloat = Finite bool nat int | Infinity bool | NaN

definition pow2 :: "int \<Rightarrow> rat" where
  "pow2 e = (if 0 \<le> e then 2 ^ nat e else 1 / 2 ^ nat (- e))"

definition pow10 :: "int \<Rightarrow> rat" where
  "pow10 e = (if 0 \<le> e then 10 ^ nat e else 1 / 10 ^ nat (- e))"

fun float_value :: "pyfloat \<Rightarrow> rat option" where
  "float_value (Finite s m e) = Some ((if s then - 1 else 1) * of_nat m * pow2 e)"
| "float_value (Infinity s) = None"
| "float_value NaN = None"

text \<open>\<open>bool(x)\<close>: a float is false exactly when it is zero (\<open>nan\<close> and \<open>inf\<close> are true).\<close>

fun float_bool :: "pyfloat \<Rightarrow> bool" where
  "float_bool (Finite s m e) = (m \<noteq> 0)"
| "float_bool (Infinity s) = True"
| "float_bool NaN = True"

text \<open>\<open>x > c\<close> for an integer literal \<open>c\<close>: false for \<open>nan\<close>, true for \<open>inf\<close>.\<close>

fun float_gt :: "pyfloat \<Rightarrow> int \<Rightarrow> bool" where
  "float_gt (Finite s m e) c = (of_int c < (if s then - 1 else 1) * of_nat m * pow2 e)"
| "float_gt (Infinity s) c = (\<not> s)"
| "float_gt NaN c = False"

subsection \<open>Formatting floats\<close>

definition digit_char :: "nat \<Rightarrow> char" where
  "digit_char d = ''0123456789'' ! d"

fun dec_digits :: "nat \<Rightarrow> string" where
  "dec_digits n =
     (if n < 10 then [digit_char n] else dec_digits (n div 10) @ [digit_char (n mod 10)])"

fun bitlen :: "nat \<Rightarrow> nat" where
  "bitlen n = (if n = 0 then 0 else Suc (bitlen (n div 2)))"

definition round_half_even :: "rat \<Rightarrow> int" where
  "round_half_even q =
     (let f = \<lfloor>q\<rfloor>; r = q - of_int f
      in if r < 1 / 2 then f else if 1 / 2 < r then f + 1 else if even f then f else f + 1)"

text \<open>
  \<open>format(x, '.1f')\<close>: the exact value rounded to tenths (ties to even), printed with
  all its integer digits and one digit after the point.
\<close>

fun float_format_1f :: "pyfloat \<Rightarrow> string" where
  "float_format_1f (Finite s m e) =
     (let r = nat (round_half_even (of_nat m * pow2 e * 10))
      in (if s then ''-'' else '''') @ dec_digits (r div 10) @ ''.'' @ dec_digits (r mod 10))"
| "float_format_1f (Infinity s) = (if s then ''-inf'' else ''inf'')"
| "float_format_1f NaN = ''nan''"

text \<open>
  \<open>str(x)\<close>, which an f-string field with no format spec uses: the shortest decimal
  digit string that reads back as \<open>x\<close> (the closest such, ties to the even digit),
  printed in fixed notation with at least one digit after the point when the decimal
  point position lies in \<open>-3..16\<close> and in exponent notation otherwise.
  \<open>ulp_exp\<close> is the exponent of the unit in the last place of \<open>m * 2^e\<close>; the interval
  \<open>lo..hi\<close> holds the reals that round to the float, its ends included when the
  53-bit mantissa is even.
\<close>

definition ulp_exp :: "nat \<Rightarrow> int \<Rightarrow> int" where
  "ulp_exp m e = max (e + int (bitlen m) - 53) (- 1074)"

definition dec_exponent :: "rat \<Rightarrow> int" where
  "dec_exponent x =
     (if 1 \<le> x then int (length (dec_digits (nat \<lfloor>x\<rfloor>)))
      else - int (length (takeWhile (\<lambda>j. x * 10 ^ j < 1 / 10) [0..<400])))"

definition in_interval :: "rat \<Rightarrow> rat \<Rightarrow> bool \<Rightarrow> rat \<Rightarrow> bool" where
  "in_interval lo hi incl c = (if incl then lo \<le> c \<and> c \<le> hi else lo < c \<and> c < hi)"

definition candidate :: "rat \<Rightarrow> rat \<Rightarrow> rat \<Rightarrow> bool \<Rightarrow> int \<Rightarrow> nat \<Rightarrow> nat option" where
  "candidate x lo hi incl k n =
     (let scale = pow10 (k - int n);
          d = nat \<lfloor>x / scale\<rfloor>;
          c1 = of_nat d * scale;
          c2 = of_nat (d + 1) * scale;
          ok1 = in_interval lo hi incl c1;
          ok2 = in_interval lo hi incl c2
      in if ok1 \<and> ok2 then
           (if x - c1 < c2 - x then Some d
            else if c2 - x < x - c1 then Some (d + 1)
            else if even d then Some d else Some (d + 1))
         else if ok1 then Some d
         else if ok2 then Some (d + 1)
         else None)"

fun shortest :: "rat \<Rightarrow> rat \<Rightarrow> rat \<Rightarrow> bool \<Rightarrow> int \<Rightarrow> nat list \<Rightarrow> nat \<times> nat" where
  "shortest x lo hi incl k [] = (nat \<lfloor>x / pow10 (k - 17)\<rfloor>, 17)"
| "shortest x lo hi incl k (n # ns) =
     (case candidate x lo hi incl k n of
        Some d \<Rightarrow> (d, n)
      | None \<Rightarrow> shortest x lo hi incl k ns)"

definition strip_zeros :: "string \<Rightarrow> string" where
  "strip_zeros ds = rev (dropWhile (\<lambda>c. c = CHR ''0'') (rev ds))"

definition float_digits :: "nat \<Rightarrow> int \<Rightarrow> string \<times> int" where
  "float_digits m e =
     (let x = of_nat m * pow2 e;
          q = ulp_exp m e;
          mant = nat \<lfloor>x / pow2 q\<rfloor>;
          gap_lo = (if mant = 2 ^ 52 \<and> - 1074 < q then pow2 (q - 1) else pow2 q);
          lo = x - gap_lo / 2;
          hi = x + pow2 q / 2;
          k = dec_exponent x;
          (d, n) = shortest x lo hi (even mant) k [1..<18];
          ds = dec_digits d
      in (strip_zeros ds, k + int (length ds) - int n))"

definition exp_digits :: "nat \<Rightarrow> string" where
  "exp_digits n = (if n < 10 then CHR ''0'' # dec_digits n else dec_digits n)"

definition format_digits :: "string \<Rightarrow> int \<Rightarrow> string" where
  "format_digits ds decpt =
     (if decpt \<le> - 4 \<or> 16 < decpt then
        take 1 ds @ (if 1 < length ds then ''.'' @ drop 1 ds else '''')
          @ ''e'' @ (if decpt - 1 < 0 then ''-'' else ''+'') @ exp_digits (nat \<bar>decpt - 1\<bar>)
      else if decpt \<le> 0 then ''0.'' @ replicate (nat (- decpt)) CHR ''0'' @ ds
      else if int (length ds) \<le> decpt then
        ds @ replicate (nat decpt - length ds) CHR ''0'' @ ''.0''
      else take (nat decpt) ds @ ''.'' @ drop (nat decpt) ds)"

fun float_str :: "pyfloat \<Rightarrow> string" where
  "float_str (Finite s m e) =
     (if s then ''-'' else '''') @
     (if m = 0 then ''0.0''
      else (case float_digits m e of (ds, decpt) \<Rightarrow> format_digits ds decpt))"
| "float_str (Infinity s) = (if s then ''-inf'' else ''inf'')"
| "float_str NaN = ''nan''"

subsection \<open>The dictionaries the program builds\<close>

text \<open>
  \<open>ping_host\<close> returns \<open>Tuple[bool, Optional[float], Optional[float]]\<close>; the program
  stores it as a dict with the keys \<open>success\<close>, \<open>avg\<close>, \<open>loss\<close>. An interface is a dict
  with the keys \<open>name\<close>, \<open>type\<close>, \<open>ip\<close>.
\<close>

record ping_dict =
  success :: bool
  avg :: "pyfloat option"
  loss :: "pyfloat option"

record interface =
  name :: string
  itype :: string
  ip :: "string option"

text \<open>
  The values stored in the results dict: \<open>None\<close>, a bool, a string, a ping dict, a list
  of interface dicts. The results dict itself is a dict from string keys to such
  values, kept in insertion order; reading a key that is missing raises \<open>KeyError\<close>.
\<close>

datatype pyval =
    PyNone
  | PyBool bool
  | PyStr string
  | PyPing ping_dict
  | PyInterfaces "interface list"

type_synonym pydict = "(string \<times> pyval) list"

definition getitem :: "pydict \<Rightarrow> string \<Rightarrow> py_error + pyval" where
  "getitem d k = (case map_of d k of None \<Rightarrow> Inl (KeyError k) | Some v \<Rightarrow> Inr v)"

fun setitem :: "pydict \<Rightarrow> string \<Rightarrow> pyval \<Rightarrow> pydict" where
  "setitem [] k v = [(k, v)]"
| "setitem ((k', v') # d) k v = (if k' = k then (k, v) # d else (k', v') # setitem d k v)"

text \<open>
  \<open>v[key]\<close> for a value read from the results dict: only a ping dict can be
  subscripted with a string; \<open>None\<close>, a bool, a string and a list raise \<open>TypeError\<close>.
\<close>

fun subscript :: "pyval \<Rightarrow> (ping_dict \<Rightarrow> 'a) \<Rightarrow> py_error + 'a" where
  "subscript (PyPing p) field = Inr (field p)"
| "subscript v field = Inl TypeError"

text \<open>Python's truth value: \<open>None\<close>, \<open>False\<close>, the empty string and the empty list are false.\<close>

fun truthy :: "pyval \<Rightarrow> bool" where
  "truthy PyNone = False"
| "truthy (PyBool b) = b"
| "truthy (PyStr s) = (s \<noteq> [])"
| "truthy (PyPing p) = True"
| "truthy (PyInterfaces l) = (l \<noteq> [])"

definition optional_str :: "string option \<Rightarrow> pyval" where
  "optional_str v = (case v of None \<Rightarrow> PyNone | Some s \<Rightarrow> PyStr s)"

section \<open>network\_checker.py: NetworkChecker\<close>

record NetworkChecker =
  system :: string
  is_windows :: bool
  is_linux :: bool

definition NetworkChecker_init :: "string \<Rightarrow> NetworkChecker" where
  "NetworkChecker_init platform_system =
     \<lparr>system = platform_system,
      is_windows = (platform_system = ''Windows''),
      is_linux = (platform_system = ''Linux'')\<rparr>"

section \<open>diagnostics.py: NetworkDiagnostics\<close>

record NetworkDiagnostics =
  checker :: NetworkChecker
  results :: pydict

definition NetworkDiagnostics_init :: "NetworkChecker \<Rightarrow> NetworkDiagnostics" where
  "NetworkDiagnostics_init c = \<lparr>checker = c, results = []\<rparr>"

record diagnosis =
  status :: string
  issues :: "string list"
  advice :: "string list"

text \<open>
  What the checker's probes returned during one \<open>run_full_diagnostic\<close>: the model's
  input in place of the sockets, the HTTP request and the subprocesses.
\<close>

record probes =
  get_local_ip :: "string option"
  get_external_ip :: "string option"
  get_gateway :: "string option"
  get_network_interfaces :: "interface list"
  ping_8888 :: ping_dict
  ping_google :: ping_dict
  check_dns :: bool

definition run_full_diagnostic :: "NetworkDiagnostics \<Rightarrow> probes \<Rightarrow> NetworkDiagnostics \<times> pydict" where
  "run_full_diagnostic self env =
     (let r0 = [(''local_ip'', PyNone), (''external_ip'', PyNone), (''gateway'', PyNone),
                (''interfaces'', PyInterfaces []),
                (''ping_google_dns'', PyPing \<lparr>success = False, avg = None, loss = None\<rparr>),
                (''ping_domain'', PyPing \<lparr>success = False, avg = None, loss = None\<rparr>),
                (''dns_working'', PyBool False),
                (''internet_connected'', PyBool False)];
          r1 = setitem r0 ''local_ip'' (optional_str (get_local_ip env));
          r2 = setitem r1 ''external_ip'' (optional_str (get_external_ip env));
          r3 = setitem r2 ''gateway'' (optional_str (get_gateway env));
          r4 = setitem r3 ''interfaces'' (PyInterfaces (get_network_interfaces env));
          r5 = setitem r4 ''ping_google_dns'' (PyPing (ping_8888 env));
          r6 = setitem r5 ''ping_domain'' (PyPing (ping_google env));
          r7 = setitem r6 ''dns_working'' (PyBool (check_dns env));
          r8 = setitem r7 ''internet_connected'' (PyBool (success (ping_8888 env)))
      in (self\<lparr>results := r8\<rparr>, r8))"

text \<open>
  \<open>get_diagnosis\<close> starts from the dict \<open>{'status': 'unknown', 'issues': [], 'advice': []}\<close>
  and fills it in. \<open>no_connection\<close> is lines 79-98, \<open>dns_issue\<close> lines 102-110,
  \<open>unstable_connection\<close> lines 114-120, \<open>slow_connection\<close> lines 124-129, \<open>healthy\<close>
  lines 132-136. \<open>x and x > 20\<close> on an \<open>Optional[float]\<close> is \<open>and_gt\<close>: \<open>None\<close> and
  \<open>0.0\<close> are false and the comparison is not made.
\<close>

definition and_gt :: "pyfloat option \<Rightarrow> int \<Rightarrow> bool" where
  "and_gt v c = (case v of None \<Rightarrow> False | Some x \<Rightarrow> float_bool x \<and> float_gt x c)"

definition fstr :: "pyfloat option \<Rightarrow> string" where
  "fstr v = (case v of None \<Rightarrow> ''None'' | Some x \<Rightarrow> float_str x)"

definition fstr_1f :: "pyfloat option \<Rightarrow> py_error + string" where
  "fstr_1f v = (case v of None \<Rightarrow> Inl TypeError | Some x \<Rightarrow> Inr (float_format_1f x))"

definition unknown :: diagnosis where
  "unknown = \<lparr>status = ''unknown'', issues = [], advice = []\<rparr>"

definition set_status :: "string \<Rightarrow> diagnosis \<Rightarrow> diagnosis" where
  "set_status s d = d\<lparr>status := s\<rparr>"

definition append_issue :: "string \<Rightarrow> diagnosis \<Rightarrow> diagnosis" where
  "append_issue s d = d\<lparr>issues := issues d @ [s]\<rparr>"

definition append_advice :: "string \<Rightarrow> diagnosis \<Rightarrow> diagnosis" where
  "append_advice s d = d\<lparr>advice := advice d @ [s]\<rparr>"

definition no_connection :: "pydict \<Rightarrow> diagnosis \<Rightarrow> py_error + diagnosis" where
  "no_connection res d0 =
     (let d1 = append_issue ''No internet connectivity detected'' (set_status ''no_connection'' d0)
      in case getitem res ''local_ip'' of
           Inl err \<Rightarrow> Inl err
         | Inr local \<Rightarrow>
             if \<not> truthy local then
               Inr (append_advice ''Restart your network adapter''
                   (append_advice ''Check your network cable or Wi-Fi connection''
                   (append_issue ''No network connection (no local IP)'' d1)))
             else
               (case getitem res ''gateway'' of
                  Inl err \<Rightarrow> Inl err
                | Inr gw \<Rightarrow>
                    if \<not> truthy gw then
                      Inr (append_advice ''Restart your router''
                          (append_advice ''Check router connection''
                          (append_issue ''No default gateway detected'' d1)))
                    else
                      Inr (append_advice ''Contact your ISP if router is online but no internet''
                          (append_advice ''Check if your router has internet access''
                          (append_issue ''Connected to router but no internet access'' d1)))))"

definition dns_issue :: "NetworkDiagnostics \<Rightarrow> diagnosis \<Rightarrow> diagnosis" where
  "dns_issue self d0 =
     (let d1 = append_advice ''Flush DNS cache''
              (append_advice ''Try changing DNS server to 8.8.8.8 or 1.1.1.1''
              (append_issue ''DNS not responding properly''
              (set_status ''dns_issue'' d0)))
      in if is_windows (checker self) then append_advice ''Run: ipconfig /flushdns'' d1
         else append_advice ''Restart network service or reboot'' d1)"

definition unstable_connection :: "pyfloat option \<Rightarrow> diagnosis \<Rightarrow> diagnosis" where
  "unstable_connection l d0 =
     append_advice ''Restart router if problem persists''
    (append_advice ''Check network cables if using Ethernet''
    (append_advice ''Check Wi-Fi signal strength if using wireless''
    (append_advice ''Network connection is unstable''
    (append_issue (''High packet loss ('' @ fstr l @ ''%)'')
    (set_status ''unstable_connection'' d0)))))"

definition slow_connection :: "pyfloat option \<Rightarrow> diagnosis \<Rightarrow> py_error + diagnosis" where
  "slow_connection a d0 =
     (case fstr_1f a of
        Inl err \<Rightarrow> Inl err
      | Inr text \<Rightarrow>
          Inr (append_advice ''Check if others are using network heavily''
              (append_advice ''Close bandwidth-intensive applications''
              (append_advice ''Network latency is high''
              (append_issue (''High latency ('' @ text @ ''ms)'')
              (set_status ''slow_connection'' d0))))))"

definition healthy :: "diagnosis \<Rightarrow> diagnosis" where
  "healthy d0 = (set_status ''healthy'' d0)\<lparr>issues := [], advice := [''Internet is working normally'']\<rparr>"

definition check_ping :: "pydict \<Rightarrow> diagnosis \<Rightarrow> py_error + diagnosis" where
  "check_ping res d0 =
     (case getitem res ''ping_google_dns'' of
        Inl err \<Rightarrow> Inl err
      | Inr ping \<Rightarrow>
          (case subscript ping loss of
             Inl err \<Rightarrow> Inl err
           | Inr l \<Rightarrow>
               if and_gt l 20 then Inr (unstable_connection l d0)
               else
                 (case subscript ping avg of
                    Inl err \<Rightarrow> Inl err
                  | Inr a \<Rightarrow> if and_gt a 100 then slow_connection a d0 else Inr (healthy d0))))"

definition get_diagnosis :: "NetworkDiagnostics \<Rightarrow> pydict option \<Rightarrow> py_error + diagnosis" where
  "get_diagnosis self arg =
     (let res = (case arg of None \<Rightarrow> results self | Some r \<Rightarrow> r)
      in case getitem res ''internet_connected'' of
           Inl err \<Rightarrow> Inl err
         | Inr conn \<Rightarrow>
             if \<not> truthy conn then no_connection res unknown
             else
               (case getitem res ''dns_working'' of
                  Inl err \<Rightarrow> Inl err
                | Inr dns \<Rightarrow>
                    if \<not> truthy dns then Inr (dns_issue self unknown)
                    else check_ping res unknown))"

section \<open>The specification's data model\<close>

text \<open>
  A Measurement as the specification declares it, and the results dict that carries
  it: every key present, every value of its declared type.
\<close>

record Measurement =
  local_ip :: "string option"
  external_ip :: "string option"
  gateway :: "string option"
  interfaces :: "interface list"
  primary_ping :: ping_dict
  domain_ping :: ping_dict
  dns_ok :: bool
  internet_connected :: bool

definition to_results :: "Measurement \<Rightarrow> pydict" where
  "to_results m =
     [(''local_ip'', optional_str (local_ip m)),
      (''external_ip'', optional_str (external_ip m)),
      (''gateway'', optional_str (gateway m)),
      (''interfaces'', PyInterfaces (interfaces m)),
      (''ping_google_dns'', PyPing (primary_ping m)),
      (''ping_domain'', PyPing (domain_ping m)),
      (''dns_working'', PyBool (dns_ok m)),
      (''internet_connected'', PyBool (internet_connected m))]"

definition diagnose :: "NetworkDiagnostics \<Rightarrow> Measurement \<Rightarrow> py_error + diagnosis" where
  "diagnose self m = get_diagnosis self (Some (to_results m))"

definition status_of :: "NetworkDiagnostics \<Rightarrow> Measurement \<Rightarrow> string option" where
  "status_of self m = (case diagnose self m of Inl err \<Rightarrow> None | Inr d \<Rightarrow> Some (status d))"

datatype StatusKind = Healthy | NoConnection | DnsIssue | UnstableConnection | SlowConnection

fun status_string :: "StatusKind \<Rightarrow> string" where
  "status_string Healthy = ''healthy''"
| "status_string NoConnection = ''no_connection''"
| "status_string DnsIssue = ''dns_issue''"
| "status_string UnstableConnection = ''unstable_connection''"
| "status_string SlowConnection = ''slow_connection''"

text \<open>A field of the specification is absent, for the code, when it is \<open>None\<close> or empty.\<close>

definition missing :: "string option \<Rightarrow> bool" where
  "missing v = (v = None \<or> v = Some [])"

text \<open>The Measurement that \<open>run_full_diagnostic\<close> collects from the probes.\<close>

definition collect :: "probes \<Rightarrow> Measurement" where
  "collect env =
     \<lparr>local_ip = get_local_ip env,
      external_ip = get_external_ip env,
      gateway = get_gateway env,
      interfaces = get_network_interfaces env,
      primary_ping = ping_8888 env,
      domain_ping = ping_google env,
      dns_ok = check_dns env,
      internet_connected = success (ping_8888 env)\<rparr>"

subsection \<open>Example inputs\<close>

definition linux_diagnostics :: NetworkDiagnostics where
  "linux_diagnostics = NetworkDiagnostics_init (NetworkChecker_init ''Linux'')"

definition windows_diagnostics :: NetworkDiagnostics where
  "windows_diagnostics = NetworkDiagnostics_init (NetworkChecker_init ''Windows'')"

definition no_ping :: ping_dict where
  "no_ping = \<lparr>success = False, avg = None, loss = None\<rparr>"

definition ping_of :: "nat \<Rightarrow> nat \<Rightarrow> ping_dict" where
  "ping_of a l = \<lparr>success = True, avg = Some (Finite False a 0), loss = Some (Finite False l 0)\<rparr>"

definition online :: "ping_dict \<Rightarrow> Measurement" where
  "online p =
     \<lparr>local_ip = Some ''192.168.1.5'', external_ip = Some ''203.0.113.7'',
      gateway = Some ''192.168.1.1'', interfaces = [],
      primary_ping = p, domain_ping = p, dns_ok = True, internet_connected = True\<rparr>"

definition offline :: "string option \<Rightarrow> string option \<Rightarrow> Measurement" where
  "offline local gw =
     \<lparr>local_ip = local, external_ip = None, gateway = gw, interfaces = [],
      primary_ping = no_ping, domain_ping = no_ping, dns_ok = False,
      internet_connected = False\<rparr>"

section \<open>monitor.py: NetworkMonitor\<close>

text \<open>
  The monitor's effects, in the order they happen: a \<open>print\<close> call with its argument,
  a call of \<open>run_full_diagnostic\<close>, a call of the callback with its two arguments, and
  \<open>time.sleep\<close>. A monitor function returns the monitor, the effects so far, and the
  exception that ended it, if any.
\<close>

datatype effect = Print string | FullDiagnostic | Callback bool string | Sleep int

type_synonym 'a outcome = "'a \<times> effect list \<times> py_error option"

record NetworkMonitor =
  monitor_checker :: NetworkChecker
  diagnostics :: NetworkDiagnostics
  interval :: int
  previous_status :: "bool option"
  running :: bool

definition NetworkMonitor_init :: "NetworkChecker \<Rightarrow> int \<Rightarrow> NetworkMonitor" where
  "NetworkMonitor_init c i =
     \<lparr>monitor_checker = c, diagnostics = NetworkDiagnostics_init c, interval = i,
      previous_status = None, running = False\<rparr>"

text \<open>
  What one pass of the loop observes: the timestamp, the result of \<open>is_connected()\<close>,
  and what the probes of a full diagnostic would return during this pass.
\<close>

record tick_env =
  now :: string
  is_connected :: bool
  probe :: probes

definition int_str :: "int \<Rightarrow> string" where
  "int_str i = (if i < 0 then ''-'' @ dec_digits (nat (- i)) else dec_digits (nat i))"

definition rule60 :: string where
  "rule60 = replicate 60 CHR ''=''"

definition print_items :: "string \<Rightarrow> string list \<Rightarrow> effect list" where
  "print_items title items =
     (if items \<noteq> [] then Print (CHR 0x0A # title) # map (\<lambda>i. Print (''  - '' @ i)) items
      else [])"

definition handle_status_change ::
    "NetworkMonitor \<Rightarrow> bool \<Rightarrow> string \<Rightarrow> probes \<Rightarrow> NetworkMonitor outcome" where
  "handle_status_change self conn timestamp env =
     (if conn \<and> previous_status self = Some False then
        (self,
         [Print (CHR 0x0A # rule60),
          Print (''['' @ timestamp @ ''] [ALERT] Internet connection RESTORED [OK]''),
          Print (rule60 @ [CHR 0x0A])],
         None)
      else if \<not> conn \<and> previous_status self = Some True then
        (let (diag, res) = run_full_diagnostic (diagnostics self) env;
             self1 = self\<lparr>diagnostics := diag\<rparr>;
             out = [Print (CHR 0x0A # rule60),
                    Print (''['' @ timestamp @ ''] [ALERT] Internet connection LOST [FAIL]''),
                    FullDiagnostic]
         in case get_diagnosis diag (Some res) of
              Inl err \<Rightarrow> (self1, out, Some err)
            | Inr d \<Rightarrow>
                (self1,
                 out @ print_items ''Reason:'' (issues d) @ print_items ''Advice:'' (advice d)
                   @ [Print (rule60 @ [CHR 0x0A])],
                 None))
      else if previous_status self = None then
        (if conn then
           (self, [Print (''['' @ timestamp @ ''] [OK] Initial check: Internet is UP'')], None)
         else
           (let (diag, res) = run_full_diagnostic (diagnostics self) env;
                self1 = self\<lparr>diagnostics := diag\<rparr>;
                out = [Print (''['' @ timestamp @ ''] [FAIL] Initial check: Internet is DOWN''),
                       FullDiagnostic]
            in case get_diagnosis diag (Some res) of
                 Inl err \<Rightarrow> (self1, out, Some err)
               | Inr d \<Rightarrow>
                   (self1,
                    out @ print_items ''Issues detected:'' (issues d)
                      @ print_items ''Recommended actions:'' (advice d) @ [Print ''''],
                    None)))
      else (self, [], None))"

definition heartbeat :: "bool \<Rightarrow> string \<Rightarrow> effect" where
  "heartbeat conn timestamp =
     Print (''['' @ timestamp @ ''] '' @ (if conn then ''[OK]'' else ''[FAIL]'')
            @ '' Connection status: '' @ (if conn then ''UP'' else ''DOWN''))"

text \<open>
  The end of a pass: \<open>previous_status\<close> is stored, then \<open>time.sleep(self.interval)\<close>,
  which raises \<open>ValueError\<close> for a negative interval.
\<close>

definition store_and_sleep :: "NetworkMonitor \<Rightarrow> bool \<Rightarrow> effect list \<Rightarrow> NetworkMonitor outcome" where
  "store_and_sleep self conn out =
     (let self1 = self\<lparr>previous_status := Some conn\<rparr>
      in if interval self1 < 0 then (self1, out, Some ValueError)
         else (self1, out @ [Sleep (interval self1)], None))"

text \<open>
  One pass of the \<open>while\<close> loop. \<open>callback\<close> says whether a callback was given;
  calling it is the effect \<open>Callback\<close>.
\<close>

definition tick :: "bool \<Rightarrow> NetworkMonitor \<Rightarrow> tick_env \<Rightarrow> NetworkMonitor outcome" where
  "tick callback self env =
     (let timestamp = now env;
          conn = is_connected env
      in if Some conn \<noteq> previous_status self then
           (case handle_status_change self conn timestamp (probe env) of
              (self1, out, Some err) \<Rightarrow> (self1, out, Some err)
            | (self1, out, None) \<Rightarrow>
                store_and_sleep self1 conn
                  (out @ (if callback then [Callback conn timestamp] else [])))
         else store_and_sleep self conn [heartbeat conn timestamp])"

text \<open>
  The loop over the passes that happen before the interrupt: the list of what each
  pass observes. The loop has no bound of its own; the list ends where
  \<open>KeyboardInterrupt\<close> arrives.
\<close>

fun ticks :: "bool \<Rightarrow> NetworkMonitor \<Rightarrow> tick_env list \<Rightarrow> NetworkMonitor outcome" where
  "ticks callback self [] = (self, [], None)"
| "ticks callback self (env # envs) =
     (if running self then
        (case tick callback self env of
           (self1, out, Some err) \<Rightarrow> (self1, out, Some err)
         | (self1, out, None) \<Rightarrow>
             (case ticks callback self1 envs of
                (self2, out2, r) \<Rightarrow> (self2, out @ out2, r)))
      else (self, [], None))"

definition monitor :: "bool \<Rightarrow> NetworkMonitor \<Rightarrow> tick_env list \<Rightarrow> NetworkMonitor outcome" where
  "monitor callback self envs =
     (let start = [Print (''Starting network monitor (checking every ''
                          @ int_str (interval self) @ '' seconds)''),
                   Print (''Press Ctrl+C to stop'' @ [CHR 0x0A])]
      in case ticks callback (self\<lparr>running := True\<rparr>) envs of
           (self1, out, Some err) \<Rightarrow> (self1, start @ out, Some err)
         | (self1, out, None) \<Rightarrow>
             (self1\<lparr>running := False\<rparr>,
              start @ out @ [Print ([CHR 0x0A, CHR 0x0A] @ ''Monitoring stopped by user'')],
              None))"

fun is_callback :: "effect \<Rightarrow> bool" where
  "is_callback (Callback c t) = True"
| "is_callback e = False"


text \<open>
  The callback calls a run owes, in the words of the specification: one call in each
  pass whose observed value differs from the value stored by the pass before it,
  starting from the stored value \<open>prev\<close>.
\<close>

fun callbacks_due :: "bool option \<Rightarrow> tick_env list \<Rightarrow> effect list" where
  "callbacks_due prev [] = []"
| "callbacks_due prev (e # es) =
     (if Some (is_connected e) \<noteq> prev then [Callback (is_connected e) (now e)] else [])
       @ callbacks_due (Some (is_connected e)) es"

text \<open>The scenario of five passes observing up, up, down, down, up.\<close>

definition no_probes :: probes where
  "no_probes =
     \<lparr>get_local_ip = Some ''192.168.1.5'', get_external_ip = None,
      get_gateway = Some ''192.168.1.1'', get_network_interfaces = [],
      ping_8888 = no_ping, ping_google = no_ping, check_dns = False\<rparr>"

definition observe :: "string \<Rightarrow> bool \<Rightarrow> tick_env" where
  "observe t c = \<lparr>now = t, is_connected = c, probe = no_probes\<rparr>"

definition five_ticks :: "tick_env list" where
  "five_ticks =
     [observe ''2024-01-01 10:00:00'' True, observe ''2024-01-01 10:00:10'' True,
      observe ''2024-01-01 10:00:20'' False, observe ''2024-01-01 10:00:30'' False,
      observe ''2024-01-01 10:00:40'' True]"

section \<open>network\_checker.py: parsing the interface listings\<close>

text \<open>
  Text is a list of characters with code points below 256. The string methods and the
  regular expressions of the parsers are modelled on it: \<open>str.isspace\<close> (what
  \<open>strip()\<close> removes), \<open>str.isdigit\<close>, the class \<open>\d\<close>, \<open>lower()\<close>, \<open>split(sep)\<close>,
  \<open>x in s\<close>, \<open>startswith\<close>.
\<close>

definition is_space :: "char \<Rightarrow> bool" where
  "is_space c =
     (let n = of_char c :: nat
      in (9 \<le> n \<and> n \<le> 13) \<or> (28 \<le> n \<and> n \<le> 32) \<or> n = 133 \<or> n = 160)"

definition is_decimal :: "char \<Rightarrow> bool" where
  "is_decimal c = (let n = of_char c :: nat in 48 \<le> n \<and> n \<le> 57)"

definition isdigit :: "char \<Rightarrow> bool" where
  "isdigit c = (let n = of_char c :: nat in (48 \<le> n \<and> n \<le> 57) \<or> n = 178 \<or> n = 179 \<or> n = 185)"

definition lower_char :: "char \<Rightarrow> char" where
  "lower_char c =
     (let n = of_char c :: nat
      in if (65 \<le> n \<and> n \<le> 90) \<or> (192 \<le> n \<and> n \<le> 222 \<and> n \<noteq> 215) then char_of (n + 32)
         else c)"

definition lower :: "string \<Rightarrow> string" where
  "lower s = map lower_char s"

definition strip :: "string \<Rightarrow> string" where
  "strip s = rev (dropWhile is_space (rev (dropWhile is_space s)))"

fun split_on :: "char \<Rightarrow> string \<Rightarrow> string list" where
  "split_on sep [] = [[]]"
| "split_on sep (c # cs) =
     (if c = sep then [] # split_on sep cs
      else (case split_on sep cs of
              [] \<Rightarrow> [[c]]
            | w # ws \<Rightarrow> (c # w) # ws))"

definition startswith :: "string \<Rightarrow> string \<Rightarrow> bool" where
  "startswith s p = (take (length p) s = p)"

fun contains :: "string \<Rightarrow> string \<Rightarrow> bool" where
  "contains p [] = (p = [])"
| "contains p (c # cs) = (startswith (c # cs) p \<or> contains p cs)"

text \<open>
  \<open>\d+\.\d+\.\d+\.\d+\<close> matched at the start of \<open>s\<close>: \<open>match_octets 3 s\<close>. Each \<open>\d+\<close> is
  greedy, and giving back digits never helps, since the next pattern character is a
  dot or the end. \<open>re.search\<close> returns the leftmost match.
\<close>

fun match_octets :: "nat \<Rightarrow> string \<Rightarrow> string option" where
  "match_octets n s =
     (let d = takeWhile is_decimal s;
          r = dropWhile is_decimal s
      in if d = [] then None
         else (case n of
                 0 \<Rightarrow> Some d
               | Suc k \<Rightarrow>
                   (case r of
                      [] \<Rightarrow> None
                    | c # r' \<Rightarrow>
                        if c = CHR ''.'' then
                          (case match_octets k r' of
                             None \<Rightarrow> None
                           | Some t \<Rightarrow> Some (d @ ''.'' @ t))
                        else None)))"

fun search_ip :: "string \<Rightarrow> string option" where
  "search_ip [] = None"
| "search_ip (c # cs) =
     (case match_octets 3 (c # cs) of
        Some a \<Rightarrow> Some a
      | None \<Rightarrow> search_ip cs)"

fun search_inet_ip :: "string \<Rightarrow> string option" where
  "search_inet_ip [] = None"
| "search_inet_ip (c # cs) =
     (if startswith (c # cs) ''inet '' then
        (case match_octets 3 (drop 5 (c # cs)) of
           Some a \<Rightarrow> Some a
         | None \<Rightarrow> search_inet_ip cs)
      else search_inet_ip cs)"

text \<open>
  The two parsers keep the list \<open>interfaces\<close> and the dict \<open>current_interface\<close>
  (\<open>None\<close> before the first header line). A dict is appended to the list only when
  the variable is about to be bound to a new dict, or at the end, so no dict in the
  list is written to afterwards.
\<close>

type_synonym parser_state = "interface list \<times> interface option"

definition append_current :: "interface list \<Rightarrow> interface option \<Rightarrow> interface list" where
  "append_current l cur = (case cur of None \<Rightarrow> l | Some i \<Rightarrow> l @ [i])"

definition ipconfig_line :: "parser_state \<Rightarrow> string \<Rightarrow> parser_state" where
  "ipconfig_line st raw =
     (let line = strip raw;
          st1 = (if contains ''adapter'' (lower line) \<and> CHR '':'' \<in> set line then
                   (append_current (fst st) (snd st),
                    Some \<lparr>name = strip (case split_on CHR '':'' line of [] \<Rightarrow> [] | p # ps \<Rightarrow> p),
                          itype = (if contains ''Ethernet'' line then ''Ethernet''
                                   else if contains ''Wi-Fi'' line \<or> contains ''Wireless'' line
                                   then ''Wi-Fi''
                                   else if contains ''VPN'' line then ''VPN''
                                   else ''Unknown''),
                          ip = None\<rparr>)
                 else st)
      in case snd st1 of
           None \<Rightarrow> st1
         | Some cur \<Rightarrow>
             if contains ''IPv4 Address'' line then
               (case search_ip line of
                  None \<Rightarrow> st1
                | Some a \<Rightarrow> (fst st1, Some (cur\<lparr>ip := Some a\<rparr>)))
             else st1)"

definition has_ip :: "interface \<Rightarrow> bool" where
  "has_ip i = (case ip i of None \<Rightarrow> False | Some a \<Rightarrow> a \<noteq> [])"

definition parse_ipconfig :: "string \<Rightarrow> interface list" where
  "parse_ipconfig output =
     (let st = foldl ipconfig_line ([], None) (split_on CHR 0x0A output)
      in filter has_ip (append_current (fst st) (snd st)))"

definition determine_interface_type :: "string \<Rightarrow> string" where
  "determine_interface_type nm =
     (let name_lower = lower nm
      in if contains ''eth'' name_lower \<or> contains ''enp'' name_lower then ''Ethernet''
         else if contains ''wl'' name_lower \<or> contains ''wlan'' name_lower then ''Wi-Fi''
         else if contains ''tun'' name_lower \<or> contains ''vpn'' name_lower then ''VPN''
         else ''Unknown'')"

definition ip_addr_line :: "parser_state \<Rightarrow> string \<Rightarrow> parser_state" where
  "ip_addr_line st raw =
     (let line = strip raw;
          st1 = (case line of
                   [] \<Rightarrow> st
                 | c # cs \<Rightarrow>
                     if isdigit c \<and> CHR '':'' \<in> set line then
                       (case split_on CHR '':'' line of
                          p0 # p1 # ps \<Rightarrow>
                            (append_current (fst st) (snd st),
                             Some \<lparr>name = strip p1,
                                   itype = determine_interface_type (strip p1),
                                   ip = None\<rparr>)
                        | ps \<Rightarrow> (append_current (fst st) (snd st), snd st))
                     else st)
      in case snd st1 of
           None \<Rightarrow> st1
         | Some cur \<Rightarrow>
             if contains ''inet '' line then
               (case search_inet_ip line of
                  None \<Rightarrow> st1
                | Some a \<Rightarrow>
                    if \<not> startswith a ''127.'' then (fst st1, Some (cur\<lparr>ip := Some a\<rparr>))
                    else st1)
             else st1)"

definition parse_ip_addr :: "string \<Rightarrow> interface list" where
  "parse_ip_addr output =
     (let st = foldl ip_addr_line ([], None) (split_on CHR 0x0A output)
      in filter has_ip (append_current (fst st) (snd st)))"

text \<open>
  The invariant of the \<open>ip addr\<close> parser: no address it has stored begins with
  \<open>127.\<close>, in the list or in the current dict.
\<close>

definition no_loopback :: "interface \<Rightarrow> bool" where
  "no_loopback i = (case ip i of None \<Rightarrow> True | Some a \<Rightarrow> \<not> startswith a ''127.'')"

definition state_ok :: "parser_state \<Rightarrow> bool" where
  "state_ok st = (list_all no_loopback (fst st) \<and>
     (case snd st of None \<Rightarrow> True | Some c \<Rightarrow> no_loopback c))"

text \<open>Example listings.\<close>

definition ipconfig_loopback :: string where
  "ipconfig_loopback =
     ''Ethernet adapter Loopback:'' @ [CHR 0x0A] @ ''   IPv4 Address. . . : 127.0.0.1''"

definition ip_addr_example :: string where
  "ip_addr_example =
     ''1: lo: <LOOPBACK,UP>'' @ [CHR 0x0A] @
     ''    inet 127.0.0.1/8 scope host lo'' @ [CHR 0x0A] @
     ''2: eth0: <BROADCAST,UP>'' @ [CHR 0x0A] @
     ''    inet 192.168.1.5/24 scope global eth0''"

definition ipconfig_example :: string where
  "ipconfig_example =
     ''Wireless LAN adapter Wi-Fi:'' @ [CHR 0x0A] @
     ''   IPv4 Address. . . : 192.168.1.7(Preferred)'' @ [CHR 0x0A] @
     ''Ethernet adapter Ethernet 2:'' @ [CHR 0x0A] @
     ''   Media State . . . : Media disconnected''"

section \<open>Reading a Measurement's dict\<close>

lemma get_internet_connected:
  "getitem (to_results m) ''internet_connected'' = Inr (PyBool (internet_connected m))"
  by (simp add: getitem_def to_results_def)

lemma get_dns_working:
  "getitem (to_results m) ''dns_working'' = Inr (PyBool (dns_ok m))"
  by (simp add: getitem_def to_results_def)

lemma get_local_ip_key:
  "getitem (to_results m) ''local_ip'' = Inr (optional_str (local_ip m))"
  by (simp add: getitem_def to_results_def)

lemma get_gateway_key:
  "getitem (to_results m) ''gateway'' = Inr (optional_str (gateway m))"
  by (simp add: getitem_def to_results_def)

lemma get_ping_google_dns:
  "getitem (to_results m) ''ping_google_dns'' = Inr (PyPing (primary_ping m))"
  by (simp add: getitem_def to_results_def)

lemmas get_keys =
  get_internet_connected get_dns_working get_local_ip_key get_gateway_key get_ping_google_dns

lemmas fill_in = unknown_def set_status_def append_issue_def append_advice_def

lemma truthy_optional_str: "truthy (optional_str v) = (\<not> missing v)"
  by (cases v) (simp_all add: optional_str_def missing_def)

lemma run_full_diagnostic_collect:
  "snd (run_full_diagnostic self env) = to_results (collect env)"
  by (simp add: run_full_diagnostic_def to_results_def collect_def Let_def)

lemma run_full_diagnostic_results:
  "results (fst (run_full_diagnostic self env)) = to_results (collect env)"
  by (simp add: run_full_diagnostic_def to_results_def collect_def Let_def)

lemma diagnose_not_connected:
  "\<not> internet_connected m \<Longrightarrow> diagnose self m = no_connection (to_results m) unknown"
  by (simp add: diagnose_def get_diagnosis_def get_keys)

lemma diagnose_dns:
  "internet_connected m \<Longrightarrow> \<not> dns_ok m \<Longrightarrow> diagnose self m = Inr (dns_issue self unknown)"
  by (simp add: diagnose_def get_diagnosis_def get_keys)

lemma diagnose_ping:
  "internet_connected m \<Longrightarrow> dns_ok m \<Longrightarrow>
   diagnose self m =
     (if and_gt (loss (primary_ping m)) 20
      then Inr (unstable_connection (loss (primary_ping m)) unknown)
      else if and_gt (avg (primary_ping m)) 100
      then slow_connection (avg (primary_ping m)) unknown
      else Inr (healthy unknown))"
  by (simp add: diagnose_def get_diagnosis_def check_ping_def get_keys)

lemma and_gt_None: "and_gt None c = False"
  by (simp add: and_gt_def)

lemma and_gt_Some: "and_gt v c \<Longrightarrow> \<exists>x. v = Some x"
  by (cases v) (simp_all add: and_gt_def)

lemma pow2_pos: "0 < pow2 e"
  by (simp add: pow2_def)

lemma pow2_nonzero: "pow2 e \<noteq> 0"
  using pow2_pos [of e] by simp

lemma and_gt_value:
  "float_value x = Some v \<Longrightarrow> and_gt (Some x) c = (of_int c < v \<and> v \<noteq> 0)"
  by (cases x) (auto simp: and_gt_def pow2_nonzero split: if_splits)

lemma status_unstable: "status (unstable_connection l unknown) = ''unstable_connection''"
  by (simp add: unstable_connection_def fill_in)

lemma status_slow:
  "slow_connection (Some x) unknown = Inr d \<Longrightarrow> status d = ''slow_connection''"
  by (auto simp: slow_connection_def fstr_1f_def fill_in)

lemma slow_connection_total: "\<exists>d. slow_connection (Some x) unknown = Inr d"
  by (simp add: slow_connection_def fstr_1f_def)

lemma status_healthy: "status (healthy unknown) = ''healthy''"
  by (simp add: healthy_def fill_in)

lemma status_of_ping:
  "internet_connected m \<Longrightarrow> dns_ok m \<Longrightarrow>
   status_of self m =
     Some (if and_gt (loss (primary_ping m)) 20 then ''unstable_connection''
           else if and_gt (avg (primary_ping m)) 100 then ''slow_connection''
           else ''healthy'')"
proof -
  assume c: "internet_connected m" and d: "dns_ok m"
  show ?thesis
  proof (cases "and_gt (loss (primary_ping m)) 20")
    case True
    then show ?thesis
      by (simp add: status_of_def diagnose_ping [OF c d] status_unstable)
  next
    case False
    note no_loss = this
    show ?thesis
    proof (cases "and_gt (avg (primary_ping m)) 100")
      case True
      then obtain x where x: "avg (primary_ping m) = Some x"
        using and_gt_Some by blast
      obtain r where r: "slow_connection (Some x) unknown = Inr r"
        using slow_connection_total by blast
      from True no_loss x r status_slow [OF r] show ?thesis
        by (simp add: status_of_def diagnose_ping [OF c d])
    next
      case False
      with no_loss show ?thesis
        by (simp add: status_of_def diagnose_ping [OF c d] status_healthy)
    qed
  qed
qed

section \<open>The diagnosis cascade\<close>

lemma no_connection_result:
  "\<not> internet_connected m \<Longrightarrow>
   diagnose self m =
     Inr \<lparr>status = ''no_connection'',
          issues = [''No internet connectivity detected'',
                    if missing (local_ip m) then ''No network connection (no local IP)''
                    else if missing (gateway m) then ''No default gateway detected''
                    else ''Connected to router but no internet access''],
          advice = (if missing (local_ip m)
                    then [''Check your network cable or Wi-Fi connection'',
                          ''Restart your network adapter'']
                    else if missing (gateway m)
                    then [''Check router connection'', ''Restart your router'']
                    else [''Check if your router has internet access'',
                          ''Contact your ISP if router is online but no internet''])\<rparr>"
  by (simp add: diagnose_not_connected no_connection_def get_keys
      truthy_optional_str fill_in Let_def)

lemma dns_issue_result:
  "dns_issue self unknown =
     \<lparr>status = ''dns_issue'',
      issues = [''DNS not responding properly''],
      advice = [''Try changing DNS server to 8.8.8.8 or 1.1.1.1'',
                ''Flush DNS cache'',
                if is_windows (checker self) then ''Run: ipconfig /flushdns''
                else ''Restart network service or reboot'']\<rparr>"
  by (simp add: dns_issue_def fill_in Let_def)

lemma status_of_cascade:
  "status_of self m =
     Some (status_string
       (if \<not> internet_connected m then NoConnection
        else if \<not> dns_ok m then DnsIssue
        else if and_gt (loss (primary_ping m)) 20 then UnstableConnection
        else if and_gt (avg (primary_ping m)) 100 then SlowConnection
        else Healthy))"
proof (cases "internet_connected m")
  case False
  then show ?thesis
    by (simp add: status_of_def no_connection_result)
next
  case True
  note c = this
  show ?thesis
  proof (cases "dns_ok m")
    case False
    with c show ?thesis
      by (simp add: status_of_def diagnose_dns dns_issue_result)
  next
    case True
    with c show ?thesis
      by (simp add: status_of_ping)
  qed
qed

lemma status_of_Some:
  "status_of self m = Some s \<Longrightarrow> \<exists>d. diagnose self m = Inr d \<and> status d = s"
  by (cases "diagnose self m") (simp_all add: status_of_def)

lemma missing_None: "v \<noteq> Some [] \<Longrightarrow> missing v = (v = None)"
  by (simp add: missing_def)

text \<open>
  C1. A Measurement's address field is present when an address was determined, so a
  present \<open>local_ip\<close> or \<open>gateway\<close> is not the empty string. For every such Measurement
  with \<open>internet_connected = false\<close>, whatever its DNS, loss and latency fields, the
  diagnosis has status \<open>no_connection\<close> and exactly two issues: first
  \<open>No internet connectivity detected\<close>, then one sub-classification, with its advice:
  \<open>local_ip\<close> absent gives \<open>No network connection (no local IP)\<close>, otherwise \<open>gateway\<close>
  absent gives \<open>No default gateway detected\<close>, otherwise
  \<open>Connected to router but no internet access\<close>.
\<close>

theorem no_connection_classified:
  assumes "\<not> internet_connected m" and "local_ip m \<noteq> Some []" and "gateway m \<noteq> Some []"
  shows "diagnose self m =
     Inr \<lparr>status = status_string NoConnection,
          issues = [''No internet connectivity detected'',
                    if local_ip m = None then ''No network connection (no local IP)''
                    else if gateway m = None then ''No default gateway detected''
                    else ''Connected to router but no internet access''],
          advice = (if local_ip m = None
                    then [''Check your network cable or Wi-Fi connection'',
                          ''Restart your network adapter'']
                    else if gateway m = None
                    then [''Check router connection'', ''Restart your router'']
                    else [''Check if your router has internet access'',
                          ''Contact your ISP if router is online but no internet''])\<rparr>"
  using assms by (simp add: no_connection_result missing_None)

text \<open>
  C1 at a Measurement with a local address and no gateway.
\<close>

theorem no_connection_classified_witness:
  "\<not> internet_connected (offline (Some ''192.168.1.5'') None) \<and>
   local_ip (offline (Some ''192.168.1.5'') None) \<noteq> Some [] \<and>
   gateway (offline (Some ''192.168.1.5'') None) \<noteq> Some [] \<and>
   diagnose linux_diagnostics (offline (Some ''192.168.1.5'') None) =
     Inr \<lparr>status = ''no_connection'',
          issues = [''No internet connectivity detected'', ''No default gateway detected''],
          advice = [''Check router connection'', ''Restart your router'']\<rparr>"
proof -
  have h: "\<not> internet_connected (offline (Some ''192.168.1.5'') None)"
    "local_ip (offline (Some ''192.168.1.5'') None) \<noteq> Some []"
    "gateway (offline (Some ''192.168.1.5'') None) \<noteq> Some []"
    by (simp_all add: offline_def)
  show ?thesis
    using h no_connection_classified [OF h, of linux_diagnostics]
    by (simp add: offline_def)
qed

lemma and_gt_float_gt: "0 \<le> c \<Longrightarrow> and_gt v c = (\<exists>x. v = Some x \<and> float_gt x c)"
proof (cases v)
  case None
  then show ?thesis
    by (simp add: and_gt_def)
next
  case (Some x)
  assume c: "0 \<le> c"
  have "float_gt x c \<Longrightarrow> float_bool x"
  proof (cases x)
    case (Finite s k e)
    assume "float_gt x c"
    with Finite c show ?thesis
      by (cases "k = 0") auto
  qed simp_all
  with Some show ?thesis
    by (auto simp: and_gt_def)
qed

lemma unstable_connection_result:
  "unstable_connection (Some l) unknown =
     \<lparr>status = ''unstable_connection'',
      issues = [''High packet loss ('' @ float_str l @ ''%)''],
      advice = [''Network connection is unstable'',
                ''Check Wi-Fi signal strength if using wireless'',
                ''Check network cables if using Ethernet'',
                ''Restart router if problem persists'']\<rparr>"
  by (simp add: unstable_connection_def fstr_def fill_in del: float_str.simps)

lemma float_gt_value: "float_value x = Some v \<Longrightarrow> float_gt x c = (of_int c < v)"
  by (cases x) auto

lemma slow_connection_result:
  "slow_connection (Some a) unknown =
     Inr \<lparr>status = ''slow_connection'',
          issues = [''High latency ('' @ float_format_1f a @ ''ms)''],
          advice = [''Network latency is high'',
                    ''Close bandwidth-intensive applications'',
                    ''Check if others are using network heavily'']\<rparr>"
  by (simp add: slow_connection_def fstr_1f_def fill_in del: float_format_1f.simps)

lemma healthy_result:
  "healthy unknown =
     \<lparr>status = ''healthy'', issues = [], advice = [''Internet is working normally'']\<rparr>"
  by (simp add: healthy_def fill_in)

text \<open>
  C2. The status is that of the first rule that matches, in the order connectivity,
  DNS, loss, latency, healthy: a later rule is not looked at once an earlier one
  matches. The diagnosis is the matching rule's alone: when the loss rule matches, one
  issue and its four pieces of advice, whatever the latency; when it does not and
  the latency rule matches, the latency issue and its advice; otherwise healthy. In particular, with
  connectivity and DNS ok, a loss of 50 and a latency of 200 give
  \<open>unstable_connection\<close> and not \<open>slow_connection\<close>, with the loss issue only.
\<close>

theorem first_matching_rule:
  "status_of self m =
     Some (status_string
       (if \<not> internet_connected m then NoConnection
        else if \<not> dns_ok m then DnsIssue
        else if \<exists>l. loss (primary_ping m) = Some l \<and> float_gt l 20 then UnstableConnection
        else if \<exists>a. avg (primary_ping m) = Some a \<and> float_gt a 100 then SlowConnection
        else Healthy)) \<and>
   (internet_connected m \<and> dns_ok m \<and> loss (primary_ping m) = Some l \<and> float_gt l 20 \<longrightarrow>
      diagnose self m =
        Inr \<lparr>status = status_string UnstableConnection,
             issues = [''High packet loss ('' @ float_str l @ ''%)''],
             advice = [''Network connection is unstable'',
                       ''Check Wi-Fi signal strength if using wireless'',
                       ''Check network cables if using Ethernet'',
                       ''Restart router if problem persists'']\<rparr>) \<and>
   (internet_connected m \<and> dns_ok m \<and>
    \<not> (\<exists>l. loss (primary_ping m) = Some l \<and> float_gt l 20) \<and>
    avg (primary_ping m) = Some a \<and> float_gt a 100 \<longrightarrow>
      diagnose self m =
        Inr \<lparr>status = status_string SlowConnection,
             issues = [''High latency ('' @ float_format_1f a @ ''ms)''],
             advice = [''Network latency is high'',
                       ''Close bandwidth-intensive applications'',
                       ''Check if others are using network heavily'']\<rparr>) \<and>
   (internet_connected m \<and> dns_ok m \<and>
    \<not> (\<exists>l. loss (primary_ping m) = Some l \<and> float_gt l 20) \<and>
    \<not> (\<exists>a. avg (primary_ping m) = Some a \<and> float_gt a 100) \<longrightarrow>
      diagnose self m =
        Inr \<lparr>status = status_string Healthy, issues = [],
             advice = [''Internet is working normally'']\<rparr>) \<and>
   (internet_connected m \<and> dns_ok m \<and>
    loss (primary_ping m) = Some l \<and> float_value l = Some 50 \<and>
    avg (primary_ping m) = Some a \<and> float_value a = Some 200 \<longrightarrow>
      status_of self m = Some (status_string UnstableConnection) \<and>
      status_of self m \<noteq> Some (status_string SlowConnection) \<and>
      diagnose self m =
        Inr \<lparr>status = status_string UnstableConnection,
             issues = [''High packet loss ('' @ float_str l @ ''%)''],
             advice = [''Network connection is unstable'',
                       ''Check Wi-Fi signal strength if using wireless'',
                       ''Check network cables if using Ethernet'',
                       ''Restart router if problem persists'']\<rparr>)"
proof -
  have order: "status_of self m =
     Some (status_string
       (if \<not> internet_connected m then NoConnection
        else if \<not> dns_ok m then DnsIssue
        else if \<exists>l. loss (primary_ping m) = Some l \<and> float_gt l 20 then UnstableConnection
        else if \<exists>a. avg (primary_ping m) = Some a \<and> float_gt a 100 then SlowConnection
        else Healthy))"
    using status_of_cascade [of self m]
    by (simp only: and_gt_float_gt [of 20] and_gt_float_gt [of 100])
  have stop: "diagnose self m =
        Inr \<lparr>status = status_string UnstableConnection,
             issues = [''High packet loss ('' @ float_str l @ ''%)''],
             advice = [''Network connection is unstable'',
                       ''Check Wi-Fi signal strength if using wireless'',
                       ''Check network cables if using Ethernet'',
                       ''Restart router if problem persists'']\<rparr>"
    if "internet_connected m" "dns_ok m" "loss (primary_ping m) = Some l" "float_gt l 20"
  proof -
    from that have "and_gt (loss (primary_ping m)) 20"
      by (simp add: and_gt_float_gt)
    with that show ?thesis
      by (simp add: diagnose_ping unstable_connection_result del: float_str.simps)
  qed
  have slow: "diagnose self m =
        Inr \<lparr>status = status_string SlowConnection,
             issues = [''High latency ('' @ float_format_1f a @ ''ms)''],
             advice = [''Network latency is high'',
                       ''Close bandwidth-intensive applications'',
                       ''Check if others are using network heavily'']\<rparr>"
    if "internet_connected m" "dns_ok m"
      "\<not> (\<exists>l. loss (primary_ping m) = Some l \<and> float_gt l 20)"
      "avg (primary_ping m) = Some a" "float_gt a 100"
  proof -
    from that have "\<not> and_gt (loss (primary_ping m)) 20" "and_gt (avg (primary_ping m)) 100"
      by (simp_all add: and_gt_float_gt)
    with that show ?thesis
      by (simp add: diagnose_ping slow_connection_result del: float_format_1f.simps)
  qed
  have ok: "diagnose self m =
        Inr \<lparr>status = status_string Healthy, issues = [],
             advice = [''Internet is working normally'']\<rparr>"
    if "internet_connected m" "dns_ok m"
      "\<not> (\<exists>l. loss (primary_ping m) = Some l \<and> float_gt l 20)"
      "\<not> (\<exists>a. avg (primary_ping m) = Some a \<and> float_gt a 100)"
  proof -
    from that have "\<not> and_gt (loss (primary_ping m)) 20" "\<not> and_gt (avg (primary_ping m)) 100"
      by (simp_all add: and_gt_float_gt)
    with that show ?thesis
      by (simp add: diagnose_ping healthy_result)
  qed
  have inst: "status_of self m = Some (status_string UnstableConnection) \<and>
      status_of self m \<noteq> Some (status_string SlowConnection) \<and>
      diagnose self m =
        Inr \<lparr>status = status_string UnstableConnection,
             issues = [''High packet loss ('' @ float_str l @ ''%)''],
             advice = [''Network connection is unstable'',
                       ''Check Wi-Fi signal strength if using wireless'',
                       ''Check network cables if using Ethernet'',
                       ''Restart router if problem persists'']\<rparr>"
    if h: "internet_connected m" "dns_ok m" "loss (primary_ping m) = Some l"
      "float_value l = Some 50" "avg (primary_ping m) = Some a" "float_value a = Some 200"
  proof -
    have g: "float_gt l 20"
      using h(4) by (simp add: float_gt_value)
    have "status_of self m = Some (status_string UnstableConnection)"
      using order h g by auto
    with stop [OF h(1) h(2) h(3) g] show ?thesis
      by simp
  qed
  from order stop slow ok inst show ?thesis
    by blast
qed

text \<open>
  C2 at the Measurements with loss \<open>50.0\<close> and latency \<open>200.0\<close>, with latency
  \<open>200.0\<close> and no loss, and with neither value.
\<close>

theorem first_matching_rule_witness:
  "internet_connected (online (ping_of 200 50)) \<and> dns_ok (online (ping_of 200 50)) \<and>
   loss (primary_ping (online (ping_of 200 50))) = Some (Finite False 50 0) \<and>
   float_gt (Finite False 50 0) 20 \<and>
   float_value (Finite False 50 0) = Some 50 \<and>
   avg (primary_ping (online (ping_of 200 50))) = Some (Finite False 200 0) \<and>
   float_value (Finite False 200 0) = Some 200 \<and>
   status_of linux_diagnostics (online (ping_of 200 50)) = Some ''unstable_connection'' \<and>
   diagnose linux_diagnostics (online (ping_of 200 50)) =
     Inr \<lparr>status = ''unstable_connection'',
          issues = [''High packet loss ('' @ float_str (Finite False 50 0) @ ''%)''],
          advice = [''Network connection is unstable'',
                    ''Check Wi-Fi signal strength if using wireless'',
                    ''Check network cables if using Ethernet'',
                    ''Restart router if problem persists'']\<rparr> \<and>
   \<not> (\<exists>l. loss (primary_ping (online (ping_of 200 0))) = Some l \<and> float_gt l 20) \<and>
   avg (primary_ping (online (ping_of 200 0))) = Some (Finite False 200 0) \<and>
   float_gt (Finite False 200 0) 100 \<and>
   diagnose linux_diagnostics (online (ping_of 200 0)) =
     Inr \<lparr>status = ''slow_connection'',
          issues = [''High latency ('' @ float_format_1f (Finite False 200 0) @ ''ms)''],
          advice = [''Network latency is high'',
                    ''Close bandwidth-intensive applications'',
                    ''Check if others are using network heavily'']\<rparr> \<and>
   \<not> (\<exists>l. loss (primary_ping (online no_ping)) = Some l \<and> float_gt l 20) \<and>
   \<not> (\<exists>a. avg (primary_ping (online no_ping)) = Some a \<and> float_gt a 100) \<and>
   diagnose linux_diagnostics (online no_ping) =
     Inr \<lparr>status = ''healthy'', issues = [], advice = [''Internet is working normally'']\<rparr>"
proof -
  have on: "internet_connected (online p)" "dns_ok (online p)" for p
    by (simp_all add: online_def)
  have f: "loss (primary_ping (online (ping_of x y))) = Some (Finite False y 0)"
    "avg (primary_ping (online (ping_of x y))) = Some (Finite False x 0)" for x y
    by (simp_all add: online_def ping_of_def)
  have n: "loss (primary_ping (online no_ping)) = None" "avg (primary_ping (online no_ping)) = None"
    by (simp_all add: online_def no_ping_def)
  have g: "float_gt (Finite False 50 0) 20" "float_gt (Finite False 200 0) 100"
    "\<not> float_gt (Finite False 0 0) 20"
    "float_value (Finite False 50 0) = Some 50" "float_value (Finite False 200 0) = Some 200"
    by (simp_all add: pow2_def)
  show ?thesis
    using first_matching_rule [of linux_diagnostics "online (ping_of 200 50)"
        "Finite False 50 0" "Finite False 200 0"]
      first_matching_rule [of linux_diagnostics "online (ping_of 200 0)"
        "Finite False 0 0" "Finite False 200 0"]
      first_matching_rule [of linux_diagnostics "online no_ping" NaN NaN]
    by (simp add: on f n g del: float_str.simps float_value.simps float_gt.simps
        float_format_1f.simps)
qed

text \<open>
  C4. For every Measurement with \<open>internet_connected = true\<close> and \<open>dns_ok = false\<close> the
  diagnosis has status \<open>dns_issue\<close>, the issue \<open>DNS not responding properly\<close>, and
  three pieces of advice: the alternate DNS server, flushing the cache, and one
  remediation chosen by the checker's \<open>is_windows\<close> flag.
\<close>

theorem dns_issue_diagnosis:
  assumes "internet_connected m" and "\<not> dns_ok m"
  shows "diagnose self m =
     Inr \<lparr>status = status_string DnsIssue,
          issues = [''DNS not responding properly''],
          advice = [''Try changing DNS server to 8.8.8.8 or 1.1.1.1'',
                    ''Flush DNS cache'',
                    if is_windows (checker self) then ''Run: ipconfig /flushdns''
                    else ''Restart network service or reboot'']\<rparr>"
  by (simp add: diagnose_dns [OF assms] dns_issue_result)

text \<open>
  C5. On the dict of every Measurement \<open>get_diagnosis\<close> returns a diagnosis, raising
  nothing, and its status is one of the five kinds, never the initial \<open>unknown\<close>.
\<close>

theorem diagnose_total:
  "\<exists>d k. diagnose self m = Inr d \<and> status d = status_string k \<and> status d \<noteq> ''unknown''"
proof -
  obtain k where "status_of self m = Some (status_string k)"
    using status_of_cascade by blast
  then obtain d where d: "diagnose self m = Inr d" "status d = status_string k"
    using status_of_Some by blast
  have "status_string k \<noteq> ''unknown''"
    by (cases k) simp_all
  with d show ?thesis
    by auto
qed

text \<open>
  C9. On a fresh \<open>NetworkDiagnostics\<close>, whose stored results are the empty dict,
  \<open>get_diagnosis\<close> without a results argument raises \<open>KeyError\<close> on the key
  \<open>internet_connected\<close>; once \<open>run_full_diagnostic\<close> has stored its results, the same
  call returns a diagnosis.
\<close>

theorem get_diagnosis_before_run:
  "get_diagnosis (NetworkDiagnostics_init c) None = Inl (KeyError ''internet_connected'') \<and>
   (\<exists>d. get_diagnosis (fst (run_full_diagnostic (NetworkDiagnostics_init c) env)) None = Inr d)"
proof -
  have "get_diagnosis (NetworkDiagnostics_init c) None = Inl (KeyError ''internet_connected'')"
    by (simp add: get_diagnosis_def NetworkDiagnostics_init_def getitem_def Let_def)
  moreover have "get_diagnosis (fst (run_full_diagnostic (NetworkDiagnostics_init c) env)) None
      = diagnose (fst (run_full_diagnostic (NetworkDiagnostics_init c) env)) (collect env)"
    by (simp add: get_diagnosis_def diagnose_def run_full_diagnostic_results Let_def)
  moreover obtain d where
    "diagnose (fst (run_full_diagnostic (NetworkDiagnostics_init c) env)) (collect env) = Inr d"
    using status_of_cascade status_of_Some by blast
  ultimately show ?thesis
    by simp
qed

text \<open>
  C4 at a connected Measurement without DNS, on a Windows and on a Linux checker.
\<close>

theorem dns_issue_diagnosis_witness:
  "internet_connected ((online no_ping)\<lparr>dns_ok := False\<rparr>) \<and>
   \<not> dns_ok ((online no_ping)\<lparr>dns_ok := False\<rparr>) \<and>
   diagnose windows_diagnostics ((online no_ping)\<lparr>dns_ok := False\<rparr>) =
     Inr \<lparr>status = ''dns_issue'',
          issues = [''DNS not responding properly''],
          advice = [''Try changing DNS server to 8.8.8.8 or 1.1.1.1'',
                    ''Flush DNS cache'', ''Run: ipconfig /flushdns'']\<rparr> \<and>
   diagnose linux_diagnostics ((online no_ping)\<lparr>dns_ok := False\<rparr>) =
     Inr \<lparr>status = ''dns_issue'',
          issues = [''DNS not responding properly''],
          advice = [''Try changing DNS server to 8.8.8.8 or 1.1.1.1'',
                    ''Flush DNS cache'', ''Restart network service or reboot'']\<rparr>"
proof -
  have h: "internet_connected ((online no_ping)\<lparr>dns_ok := False\<rparr>)"
    "\<not> dns_ok ((online no_ping)\<lparr>dns_ok := False\<rparr>)"
    by (simp_all add: online_def)
  show ?thesis
    using h dns_issue_diagnosis [OF h, of windows_diagnostics]
      dns_issue_diagnosis [OF h, of linux_diagnostics]
    by (simp add: windows_diagnostics_def linux_diagnostics_def NetworkDiagnostics_init_def
        NetworkChecker_init_def)
qed

text \<open>
  C3. With connectivity and DNS ok: a loss of exactly 20 is not
  \<open>unstable_connection\<close> and a loss of 21 is; a latency of exactly 100 is not
  \<open>slow_connection\<close>, and a latency of 101 is when the loss is absent or at most 20; an
  absent loss never gives \<open>unstable_connection\<close>, an absent latency never
  \<open>slow_connection\<close>; with both absent the diagnosis is \<open>healthy\<close> with no issues.
\<close>

theorem strict_thresholds:
  assumes "internet_connected m" and "dns_ok m"
  shows "(loss (primary_ping m) = Some l \<and> float_value l = Some 20 \<longrightarrow>
            status_of self m \<in> {Some ''slow_connection'', Some ''healthy''})
       \<and> (loss (primary_ping m) = Some l \<and> float_value l = Some 21 \<longrightarrow>
            status_of self m = Some (status_string UnstableConnection))
       \<and> (avg (primary_ping m) = Some a \<and> float_value a = Some 100 \<longrightarrow>
            status_of self m \<in> {Some ''unstable_connection'', Some ''healthy''})
       \<and> ((loss (primary_ping m) = None \<or>
             (\<exists>v. loss (primary_ping m) = Some l \<and> float_value l = Some v \<and> v \<le> 20)) \<and>
            avg (primary_ping m) = Some a \<and> float_value a = Some 101 \<longrightarrow>
            status_of self m = Some (status_string SlowConnection))
       \<and> (loss (primary_ping m) = None \<longrightarrow>
            status_of self m \<noteq> Some (status_string UnstableConnection))
       \<and> (avg (primary_ping m) = None \<longrightarrow>
            status_of self m \<noteq> Some (status_string SlowConnection))
       \<and> (loss (primary_ping m) = None \<and> avg (primary_ping m) = None \<longrightarrow>
            diagnose self m =
              Inr \<lparr>status = status_string Healthy, issues = [],
                   advice = [''Internet is working normally'']\<rparr>)"
proof -
  note st = status_of_ping [OF assms, of self]
  have 1: "loss (primary_ping m) = Some l \<and> float_value l = Some 20 \<longrightarrow>
            status_of self m \<in> {Some ''slow_connection'', Some ''healthy''}"
    by (simp add: st and_gt_value)
  have 2: "loss (primary_ping m) = Some l \<and> float_value l = Some 21 \<longrightarrow>
            status_of self m = Some (status_string UnstableConnection)"
    by (simp add: st and_gt_value)
  have 3: "avg (primary_ping m) = Some a \<and> float_value a = Some 100 \<longrightarrow>
            status_of self m \<in> {Some ''unstable_connection'', Some ''healthy''}"
    by (simp add: st and_gt_value)
  have 4: "(loss (primary_ping m) = None \<or>
             (\<exists>v. loss (primary_ping m) = Some l \<and> float_value l = Some v \<and> v \<le> 20)) \<and>
            avg (primary_ping m) = Some a \<and> float_value a = Some 101 \<longrightarrow>
            status_of self m = Some (status_string SlowConnection)"
  proof (intro impI, elim conjE)
    assume low: "loss (primary_ping m) = None \<or>
        (\<exists>v. loss (primary_ping m) = Some l \<and> float_value l = Some v \<and> v \<le> 20)"
      and high: "avg (primary_ping m) = Some a" "float_value a = Some 101"
    from low have "\<not> and_gt (loss (primary_ping m)) 20"
      by (auto simp: and_gt_None and_gt_value)
    with high show "status_of self m = Some (status_string SlowConnection)"
      by (simp add: st and_gt_value)
  qed
  have 5: "loss (primary_ping m) = None \<longrightarrow>
            status_of self m \<noteq> Some (status_string UnstableConnection)"
    by (simp add: st and_gt_None)
  have 6: "avg (primary_ping m) = None \<longrightarrow>
            status_of self m \<noteq> Some (status_string SlowConnection)"
    by (simp add: st and_gt_None)
  have 7: "loss (primary_ping m) = None \<and> avg (primary_ping m) = None \<longrightarrow>
            diagnose self m =
              Inr \<lparr>status = status_string Healthy, issues = [],
                   advice = [''Internet is working normally'']\<rparr>"
    by (simp add: diagnose_ping [OF assms] and_gt_None healthy_def fill_in)
  from 1 2 3 4 5 6 7 show ?thesis
    by blast
qed

text \<open>
  C3 at the Measurements with loss 20, loss 21, latency 100, latency 101 and with
  neither value.
\<close>

theorem strict_thresholds_witness:
  "internet_connected (online (ping_of 50 20)) \<and> dns_ok (online (ping_of 50 20)) \<and>
   loss (primary_ping (online (ping_of 50 20))) = Some (Finite False 20 0) \<and>
   float_value (Finite False 20 0) = Some 20 \<and>
   status_of linux_diagnostics (online (ping_of 50 20)) = Some ''healthy'' \<and>
   loss (primary_ping (online (ping_of 50 21))) = Some (Finite False 21 0) \<and>
   float_value (Finite False 21 0) = Some 21 \<and>
   status_of linux_diagnostics (online (ping_of 50 21)) = Some ''unstable_connection'' \<and>
   avg (primary_ping (online (ping_of 100 0))) = Some (Finite False 100 0) \<and>
   float_value (Finite False 100 0) = Some 100 \<and>
   status_of linux_diagnostics (online (ping_of 100 0)) = Some ''healthy'' \<and>
   avg (primary_ping (online (ping_of 101 20))) = Some (Finite False 101 0) \<and>
   float_value (Finite False 101 0) = Some 101 \<and>
   status_of linux_diagnostics (online (ping_of 101 20)) = Some ''slow_connection'' \<and>
   loss (primary_ping (online no_ping)) = None \<and> avg (primary_ping (online no_ping)) = None \<and>
   diagnose linux_diagnostics (online no_ping) =
     Inr \<lparr>status = ''healthy'', issues = [], advice = [''Internet is working normally'']\<rparr>"
proof -
  have on: "internet_connected (online p)" "dns_ok (online p)" for p
    by (simp_all add: online_def)
  have v: "float_value (Finite False 20 0) = Some 20" "float_value (Finite False 21 0) = Some 21"
    "float_value (Finite False 100 0) = Some 100" "float_value (Finite False 101 0) = Some 101"
    "float_value (Finite False 50 0) = Some 50" "float_value (Finite False 0 0) = Some 0"
    by (simp_all add: pow2_def)
  have f: "loss (primary_ping (online (ping_of a l))) = Some (Finite False l 0)"
    "avg (primary_ping (online (ping_of a l))) = Some (Finite False a 0)" for a l
    by (simp_all add: online_def ping_of_def)
  have n: "loss (primary_ping (online no_ping)) = None" "avg (primary_ping (online no_ping)) = None"
    by (simp_all add: online_def no_ping_def)
  have s: "status_of linux_diagnostics (online (ping_of 50 20)) = Some ''healthy''"
    "status_of linux_diagnostics (online (ping_of 100 0)) = Some ''healthy''"
    by (simp_all add: status_of_ping on f and_gt_def pow2_def)
  show ?thesis
    using strict_thresholds [OF on, of "ping_of 50 21" "Finite False 21 0" linux_diagnostics
        "Finite False 50 0"]
      strict_thresholds [OF on, of "ping_of 101 20" "Finite False 20 0" linux_diagnostics
        "Finite False 101 0"]
      strict_thresholds [OF on, of no_ping NaN linux_diagnostics NaN]
    by (simp add: on f n s pow2_def)
qed

section \<open>The monitor loop\<close>

lemma run_diagnosis_total:
  "\<exists>d. get_diagnosis (fst (run_full_diagnostic s env)) (Some (snd (run_full_diagnostic s env)))
        = Inr d"
proof -
  have "get_diagnosis (fst (run_full_diagnostic s env)) (Some (snd (run_full_diagnostic s env)))
      = diagnose (fst (run_full_diagnostic s env)) (collect env)"
    by (simp add: diagnose_def run_full_diagnostic_collect)
  moreover obtain d where "diagnose (fst (run_full_diagnostic s env)) (collect env) = Inr d"
    using status_of_cascade status_of_Some by blast
  ultimately show ?thesis
    by simp
qed

lemma handle_status_change_no_error:
  "snd (snd (handle_status_change self conn t env)) = None"
proof -
  obtain d where d: "get_diagnosis (fst (run_full_diagnostic (diagnostics self) env))
      (Some (snd (run_full_diagnostic (diagnostics self) env))) = Inr d"
    using run_diagnosis_total by blast
  then show ?thesis
    by (simp add: handle_status_change_def Let_def split_beta)
qed

lemma handle_status_change_previous:
  "previous_status (fst (handle_status_change self conn t env)) = previous_status self"
  by (simp add: handle_status_change_def Let_def split_beta split: sum.split)

lemma handle_status_change_interval:
  "interval (fst (handle_status_change self conn t env)) = interval self"
  by (simp add: handle_status_change_def Let_def split_beta split: sum.split)

lemma handle_status_change_no_callback:
  "filter is_callback (fst (snd (handle_status_change self conn t env))) = []"
  by (simp add: handle_status_change_def Let_def split_beta print_items_def comp_def
      split: sum.split)

lemma tick_changed:
  "Some (is_connected env) \<noteq> previous_status self \<Longrightarrow>
   tick cb self env =
     store_and_sleep (fst (handle_status_change self (is_connected env) (now env) (probe env)))
       (is_connected env)
       (fst (snd (handle_status_change self (is_connected env) (now env) (probe env)))
        @ (if cb then [Callback (is_connected env) (now env)] else []))"
  using handle_status_change_no_error [of self "is_connected env" "now env" "probe env"]
  by (cases "handle_status_change self (is_connected env) (now env) (probe env)")
     (simp add: tick_def Let_def)

lemma tick_unchanged:
  "Some (is_connected env) = previous_status self \<Longrightarrow>
   tick cb self env = store_and_sleep self (is_connected env)
     [heartbeat (is_connected env) (now env)]"
  by (simp add: tick_def Let_def)

lemma store_and_sleep_previous:
  "previous_status (fst (store_and_sleep self conn out)) = Some conn"
  by (simp add: store_and_sleep_def Let_def)

lemma store_and_sleep_callbacks:
  "filter is_callback (fst (snd (store_and_sleep self conn out))) = filter is_callback out"
  by (simp add: store_and_sleep_def Let_def)


















lemma handle_status_change_running:
  "running (fst (handle_status_change self conn t env)) = running self"
  by (simp add: handle_status_change_def Let_def split_beta split: sum.split)

lemma tick_step:
  assumes "0 \<le> interval self"
  shows "\<exists>s1 out. tick cb self env = (s1, out, None) \<and>
     previous_status s1 = Some (is_connected env) \<and>
     interval s1 = interval self \<and> running s1 = running self \<and>
     filter is_callback out =
       (if cb \<and> Some (is_connected env) \<noteq> previous_status self
        then [Callback (is_connected env) (now env)] else [])"
proof (cases "Some (is_connected env) = previous_status self")
  case True
  with assms show ?thesis
    by (simp add: tick_unchanged store_and_sleep_def Let_def heartbeat_def)
next
  case False
  with assms show ?thesis
    by (simp add: tick_changed store_and_sleep_def Let_def handle_status_change_interval
        handle_status_change_running handle_status_change_no_callback)
qed

lemma ticks_run:
  assumes "running self" and "0 \<le> interval self"
  shows "\<exists>s out. ticks cb self envs = (s, out, None) \<and>
     previous_status s = (if envs = [] then previous_status self
                          else Some (is_connected (last envs))) \<and>
     interval s = interval self \<and> running s \<and>
     filter is_callback out = (if cb then callbacks_due (previous_status self) envs else [])"
  using assms
proof (induction envs arbitrary: self)
  case Nil
  then show ?case
    by simp
next
  case (Cons e es)
  obtain s1 out1 where t: "tick cb self e = (s1, out1, None)"
    and s1: "previous_status s1 = Some (is_connected e)" "interval s1 = interval self"
      "running s1 = running self"
    and c1: "filter is_callback out1 =
       (if cb \<and> Some (is_connected e) \<noteq> previous_status self
        then [Callback (is_connected e) (now e)] else [])"
    using tick_step [OF Cons.prems(2), of cb e] by blast
  have r1: "running s1" "0 \<le> interval s1"
    using s1 Cons.prems by simp_all
  obtain s2 out2 where u: "ticks cb s1 es = (s2, out2, None)"
    and s2: "previous_status s2 = (if es = [] then previous_status s1
                          else Some (is_connected (last es)))"
      "interval s2 = interval s1" "running s2"
    and c2: "filter is_callback out2 = (if cb then callbacks_due (previous_status s1) es else [])"
    using Cons.IH [OF r1] by blast
  have "ticks cb self (e # es) = (s2, out1 @ out2, None)"
    using Cons.prems(1) t u by simp
  moreover have "previous_status s2 = Some (is_connected (last (e # es)))"
    using s2 s1 by simp
  moreover have "filter is_callback (out1 @ out2) =
      (if cb then callbacks_due (previous_status self) (e # es) else [])"
    using c1 c2 s1 by simp
  ultimately show ?case
    using s2 s1 by simp
qed

lemma monitor_result:
  "ticks cb (self\<lparr>running := True\<rparr>) envs = (s, out, None) \<Longrightarrow>
   monitor cb self envs =
     (s\<lparr>running := False\<rparr>,
      [Print (''Starting network monitor (checking every '' @ int_str (interval self)
              @ '' seconds)''),
       Print (''Press Ctrl+C to stop'' @ [CHR 0x0A])]
      @ out @ [Print ([CHR 0x0A, CHR 0x0A] @ ''Monitoring stopped by user'')],
      None)"
  by (simp add: monitor_def Let_def del: ticks.simps)

lemma monitor_run:
  assumes "0 \<le> interval self"
  shows "snd (snd (monitor cb self envs)) = None \<and>
     previous_status (fst (monitor cb self envs)) =
       (if envs = [] then previous_status self else Some (is_connected (last envs))) \<and>
     filter is_callback (fst (snd (monitor cb self envs))) =
       (if cb then callbacks_due (previous_status self) envs else [])"
proof -
  have "running (self\<lparr>running := True\<rparr>)" "0 \<le> interval (self\<lparr>running := True\<rparr>)"
    using assms by simp_all
  from ticks_run [OF this, of cb envs]
  obtain s out where t: "ticks cb (self\<lparr>running := True\<rparr>) envs = (s, out, None)"
    and s: "previous_status s = (if envs = [] then previous_status self
                          else Some (is_connected (last envs)))"
    and c: "filter is_callback out = (if cb then callbacks_due (previous_status self) envs else [])"
    by auto
  show ?thesis
    unfolding monitor_result [OF t] using s c by simp
qed

text \<open>
  C10. In every run of the monitor loop, over every list of observations, after each
  pass \<open>previous_status\<close> is the connectivity value observed in that pass: after the
  whole run it is the last observed value, and after the first \<open>n + 1\<close> passes it is
  the value of pass \<open>n\<close>. The callback, when one is given, is called exactly in the
  passes whose observed value differs from the stored \<open>previous_status\<close>, with that
  value and the timestamp, and in no heartbeat pass; without a callback nothing is
  called. \<open>previous_status\<close> starts as \<open>None\<close>, which differs from every bool, so the
  first pass always calls the callback.
\<close>

theorem monitor_invariant:
  assumes "0 \<le> interval self"
  shows "snd (snd (monitor cb self envs)) = None \<and>
     previous_status (fst (monitor cb self envs)) =
       (if envs = [] then previous_status self else Some (is_connected (last envs))) \<and>
     (n < length envs \<longrightarrow>
        previous_status (fst (monitor cb self (take (Suc n) envs))) = Some (is_connected (envs ! n)) \<and>
        previous_status (fst (ticks cb (self\<lparr>running := True\<rparr>) (take (Suc n) envs)))
          = Some (is_connected (envs ! n))) \<and>
     filter is_callback (fst (snd (monitor cb self envs))) =
       (if cb then callbacks_due (previous_status self) envs else []) \<and>
     filter is_callback (fst (snd (ticks cb (self\<lparr>running := True\<rparr>) envs))) =
       (if cb then callbacks_due (previous_status self) envs else []) \<and>
     (previous_status self = None \<longrightarrow>
        filter is_callback (fst (snd (monitor True self (e # es)))) =
          Callback (is_connected e) (now e) # callbacks_due (Some (is_connected e)) es) \<and>
     previous_status (NetworkMonitor_init c i) = None"
proof -
  have r: "running (self\<lparr>running := True\<rparr>)" "0 \<le> interval (self\<lparr>running := True\<rparr>)"
    using assms by simp_all
  have pre: "previous_status (fst (monitor cb self (take (Suc n) envs))) = Some (is_connected (envs ! n)) \<and>
        previous_status (fst (ticks cb (self\<lparr>running := True\<rparr>) (take (Suc n) envs)))
          = Some (is_connected (envs ! n))" if n: "n < length envs"
  proof -
    have ne: "take (Suc n) envs \<noteq> []"
      using n by (cases envs) simp_all
    have l: "last (take (Suc n) envs) = envs ! n"
      using n by (simp add: take_Suc_conv_app_nth)
    show ?thesis
      using monitor_run [OF assms, of cb "take (Suc n) envs"]
        ticks_run [OF r, of cb "take (Suc n) envs"] ne l
      by auto
  qed
  have first: "filter is_callback (fst (snd (monitor True self (e # es)))) =
          Callback (is_connected e) (now e) # callbacks_due (Some (is_connected e)) es"
    if "previous_status self = None"
    using monitor_run [OF assms, of True "e # es"] that by simp
  have t: "filter is_callback (fst (snd (ticks cb (self\<lparr>running := True\<rparr>) envs))) =
       (if cb then callbacks_due (previous_status self) envs else [])"
    using ticks_run [OF r, of cb envs] by auto
  have init: "previous_status (NetworkMonitor_init c i) = None"
    by (simp add: NetworkMonitor_init_def)
  from monitor_run [OF assms, of cb envs] pre first t init show ?thesis
    by blast
qed

lemma callbacks_due_five:
  "callbacks_due None five_ticks =
     [Callback True ''2024-01-01 10:00:00'', Callback False ''2024-01-01 10:00:20'',
      Callback True ''2024-01-01 10:00:40'']"
  by (simp add: five_ticks_def observe_def)

text \<open>
  C10 at the scenario \<open>five_ticks\<close>: the callback is called in passes one, three and
  five.
\<close>

theorem monitor_invariant_witness:
  "(0::int) \<le> interval (NetworkMonitor_init (NetworkChecker_init ''Linux'') 10) \<and>
   (2::nat) < length five_ticks \<and>
   previous_status (NetworkMonitor_init (NetworkChecker_init ''Linux'') 10) = None \<and>
   previous_status (fst (monitor True (NetworkMonitor_init (NetworkChecker_init ''Linux'') 10)
       five_ticks)) = Some True \<and>
   previous_status (fst (monitor True (NetworkMonitor_init (NetworkChecker_init ''Linux'') 10)
       (take 3 five_ticks))) = Some False \<and>
   filter is_callback (fst (snd (monitor True
       (NetworkMonitor_init (NetworkChecker_init ''Linux'') 10) five_ticks))) =
     [Callback True ''2024-01-01 10:00:00'', Callback False ''2024-01-01 10:00:20'',
      Callback True ''2024-01-01 10:00:40'']"
proof -
  have i: "(0::int) \<le> interval (NetworkMonitor_init (NetworkChecker_init ''Linux'') 10)"
    by (simp add: NetworkMonitor_init_def)
  have n: "(2::nat) < length five_ticks" "five_ticks \<noteq> []"
    "is_connected (last five_ticks)" "\<not> is_connected (five_ticks ! 2)"
    by (simp_all add: five_ticks_def observe_def)
  have p: "previous_status (NetworkMonitor_init (NetworkChecker_init ''Linux'') 10) = None"
    by (simp add: NetworkMonitor_init_def)
  have three: "Suc 2 = 3"
    by simp
  show ?thesis
    using i n monitor_invariant [OF i, of True five_ticks 2, unfolded three]
    by (simp add: p callbacks_due_five del: callbacks_due.simps)
qed

section \<open>The interface parsers\<close>

lemma append_current_ok:
  "state_ok st \<Longrightarrow> list_all no_loopback (append_current (fst st) (snd st))"
  by (cases "snd st") (simp_all add: state_ok_def append_current_def)

lemma ip_addr_header_ok:
  assumes "state_ok st"
  shows "state_ok (case line of
                   [] \<Rightarrow> st
                 | c # cs \<Rightarrow>
                     if isdigit c \<and> CHR '':'' \<in> set line then
                       (case split_on CHR '':'' line of
                          p0 # p1 # ps \<Rightarrow>
                            (append_current (fst st) (snd st),
                             Some \<lparr>name = strip p1,
                                   itype = determine_interface_type (strip p1),
                                   ip = None\<rparr>)
                        | ps \<Rightarrow> (append_current (fst st) (snd st), snd st))
                     else st)"
  using assms append_current_ok [OF assms]
  by (auto simp: state_ok_def no_loopback_def split: list.split option.split)

lemma ip_addr_inet_ok:
  assumes "state_ok st1"
  shows "state_ok (case snd st1 of
           None \<Rightarrow> st1
         | Some cur \<Rightarrow>
             if contains ''inet '' line then
               (case search_inet_ip line of
                  None \<Rightarrow> st1
                | Some a \<Rightarrow>
                    if \<not> startswith a ''127.'' then (fst st1, Some (cur\<lparr>ip := Some a\<rparr>))
                    else st1)
             else st1)"
  using assms
  by (auto simp: state_ok_def no_loopback_def split: option.split)

lemma ip_addr_line_ok: "state_ok st \<Longrightarrow> state_ok (ip_addr_line st raw)"
  unfolding ip_addr_line_def Let_def
  by (rule ip_addr_inet_ok, rule ip_addr_header_ok)

lemma foldl_ip_addr_ok: "state_ok st \<Longrightarrow> state_ok (foldl ip_addr_line st ls)"
  by (induction ls arbitrary: st) (simp_all add: ip_addr_line_ok)

lemma parse_ip_addr_no_loopback: "list_all no_loopback (parse_ip_addr listing)"
proof -
  have "state_ok ([], None)"
    by (simp add: state_ok_def)
  then have "state_ok (foldl ip_addr_line ([], None) (split_on CHR 0x0A listing))"
    by (rule foldl_ip_addr_ok)
  then have "list_all no_loopback (append_current
      (fst (foldl ip_addr_line ([], None) (split_on CHR 0x0A listing)))
      (snd (foldl ip_addr_line ([], None) (split_on CHR 0x0A listing))))"
    by (rule append_current_ok)
  then show ?thesis
    by (simp add: parse_ip_addr_def Let_def list_all_iff)
qed

lemma has_ip_Some: "has_ip i \<Longrightarrow> \<exists>a. ip i = Some a \<and> a \<noteq> []"
  by (cases "ip i") (simp_all add: has_ip_def)

text \<open>
  Every entry returned by either parser has an IPv4 address that is present and not
  empty, and no entry returned by the \<open>ip addr\<close> parser has an address beginning with
  \<open>127.\<close>.
\<close>

lemma retained_interfaces:
  "(\<forall>i \<in> set (parse_ipconfig listing). \<exists>a. ip i = Some a \<and> a \<noteq> []) \<and>
   (\<forall>i \<in> set (parse_ip_addr listing). \<exists>a. ip i = Some a \<and> a \<noteq> [] \<and> \<not> startswith a ''127.'')"
proof (intro conjI ballI)
  fix i
  assume "i \<in> set (parse_ipconfig listing)"
  then have "has_ip i"
    by (simp add: parse_ipconfig_def Let_def)
  then show "\<exists>a. ip i = Some a \<and> a \<noteq> []"
    by (rule has_ip_Some)
next
  fix i
  assume i: "i \<in> set (parse_ip_addr listing)"
  then have "has_ip i"
    by (simp add: parse_ip_addr_def Let_def)
  then obtain a where a: "ip i = Some a" "a \<noteq> []"
    using has_ip_Some by blast
  from i parse_ip_addr_no_loopback [of listing] have "no_loopback i"
    by (simp add: list_all_iff)
  with a show "\<exists>a. ip i = Some a \<and> a \<noteq> [] \<and> \<not> startswith a ''127.''"
    by (simp add: no_loopback_def)
qed

lemma parse_ipconfig_example:
  "parse_ipconfig ipconfig_example =
     [\<lparr>name = ''Wireless LAN adapter Wi-Fi'', itype = ''Wi-Fi'', ip = Some ''192.168.1.7''\<rparr>]"
  by code_simp

lemma parse_ip_addr_example:
  "parse_ip_addr ip_addr_example =
     [\<lparr>name = ''eth0'', itype = ''Ethernet'', ip = Some ''192.168.1.5''\<rparr>]"
  by code_simp

text \<open>
  C8. Loopback is to be excluded by both parsers, and the \<open>ip addr\<close> parser skips
  every address beginning with \<open>127.\<close>. The \<open>ipconfig\<close> parser has no such test: from a
  listing with an adapter whose IPv4 address is \<open>127.0.0.1\<close> it returns that adapter
  with that address.
\<close>

theorem windows_parser_keeps_loopback:
  "parse_ipconfig ipconfig_loopback =
     [\<lparr>name = ''Ethernet adapter Loopback'', itype = ''Ethernet'', ip = Some ''127.0.0.1''\<rparr>]"
  by code_simp

text \<open>
  An \<open>ipconfig\<close> listing and an \<open>ip addr\<close> listing, each with one retained entry.
\<close>

lemma retained_interfaces_example:
  "\<lparr>name = ''Wireless LAN adapter Wi-Fi'', itype = ''Wi-Fi'', ip = Some ''192.168.1.7''\<rparr>
     \<in> set (parse_ipconfig ipconfig_example) \<and>
   \<lparr>name = ''eth0'', itype = ''Ethernet'', ip = Some ''192.168.1.5''\<rparr>
     \<in> set (parse_ip_addr ip_addr_example) \<and>
   \<not> startswith ''192.168.1.5'' ''127.''"
  using retained_interfaces [of ipconfig_example] retained_interfaces [of ip_addr_example]
  by (simp add: parse_ipconfig_example parse_ip_addr_example)

section \<open>The numbers in the issue strings\<close>

lemma bitlen_25: "bitlen 25 = 5"
  by code_simp

lemma ulp_exp_25: "ulp_exp 25 0 = - 48"
  by (simp add: ulp_exp_def bitlen_25)

lemma dec_digits_25: "dec_digits 25 = ''25''"
  by code_simp

lemma dec_exponent_25: "dec_exponent 25 = 2"
  by (simp add: dec_exponent_def dec_digits_25)

lemma shortest_25:
  "shortest 25 (25 - pow2 (- 48) / 2) (25 + pow2 (- 48) / 2) True 2 [Suc 0..<18] = (25, 2)"
  by code_simp

lemma mantissa_25: "nat \<lfloor>(25::rat) / pow2 (- 48)\<rfloor> = 25 * 2 ^ 48"
  by (simp add: pow2_def)

lemma strip_zeros_25: "strip_zeros ''25'' = ''25''"
  by (simp add: strip_zeros_def)

lemma float_digits_25: "float_digits 25 0 = (''25'', 2)"
  unfolding float_digits_def Let_def
  by (simp add: ulp_exp_25 dec_exponent_25 mantissa_25 shortest_25 dec_digits_25 strip_zeros_25
      pow2_def [of 0] del: dec_digits.simps)

lemma float_str_25: "float_str (Finite False 25 0) = ''25.0''"
  by (simp add: float_digits_25 format_digits_def)

lemma float_format_1f_150: "float_format_1f (Finite False 150 0) = ''150.0''"
  by code_simp

lemma dec_digits_one: "d < 10 \<Longrightarrow> dec_digits d = [digit_char d]"
  by simp

text \<open>
  The latency is formatted with \<open>:.1f\<close>: for every finite float the text is a sign,
  the integer digits, a point and exactly one digit.
\<close>

lemma latency_one_decimal:
  "\<exists>whole d. d < 10 \<and>
     float_format_1f (Finite s m e) = (if s then ''-'' else '''') @ dec_digits whole @ ''.'' @ [digit_char d]"
proof -
  define r where "r = nat (round_half_even (of_nat m * pow2 e * 10))"
  have "r mod 10 < 10"
    by simp
  then have "dec_digits (r mod 10) = [digit_char (r mod 10)]"
    by (rule dec_digits_one)
  then have "float_format_1f (Finite s m e) =
      (if s then ''-'' else '''') @ dec_digits (r div 10) @ ''.'' @ [digit_char (r mod 10)]"
    by (simp add: r_def Let_def del: dec_digits.simps)
  then show ?thesis
    by (intro exI [of _ "r div 10"] exI [of _ "r mod 10"]) simp
qed

text \<open>
  C7. The loss is put into the issue string with no format spec, so a loss of
  \<open>25.0\<close> is printed as \<open>25.0%\<close>, with one decimal place, not as \<open>25%\<close>. The
  latency \<open>150.0\<close> is printed as \<open>150.0ms\<close>.
\<close>

theorem loss_printed_with_a_decimal:
  "diagnose linux_diagnostics (online (ping_of 50 25)) =
     Inr \<lparr>status = ''unstable_connection'',
          issues = [''High packet loss (25.0%)''],
          advice = [''Network connection is unstable'',
                    ''Check Wi-Fi signal strength if using wireless'',
                    ''Check network cables if using Ethernet'',
                    ''Restart router if problem persists'']\<rparr> \<and>
   diagnose linux_diagnostics (online (ping_of 150 0)) =
     Inr \<lparr>status = ''slow_connection'',
          issues = [''High latency (150.0ms)''],
          advice = [''Network latency is high'',
                    ''Close bandwidth-intensive applications'',
                    ''Check if others are using network heavily'']\<rparr>"
proof -
  have on: "internet_connected (online p)" "dns_ok (online p)" for p
    by (simp_all add: online_def)
  have f: "loss (primary_ping (online (ping_of a l))) = Some (Finite False l 0)"
    "avg (primary_ping (online (ping_of a l))) = Some (Finite False a 0)" for a l
    by (simp_all add: online_def ping_of_def)
  have g: "and_gt (Some (Finite False 25 0)) 20" "\<not> and_gt (Some (Finite False 0 0)) 20"
    "and_gt (Some (Finite False 150 0)) 100"
    by (simp_all add: and_gt_def pow2_def)
  show ?thesis
    by (simp add: diagnose_ping [OF on] f g unstable_connection_def slow_connection_def
        fstr_def fstr_1f_def float_str_25 float_format_1f_150 fill_in
        del: float_str.simps float_format_1f.simps)
qed

end
